theory Spec2Isabelle
  imports Main "HOL-Library.Sublist"
begin

section \<open>Errors and the control signal\<close>

text \<open>
  A Go \<^verbatim>\<open>error\<close> value. The code only ever asks one question of an error it did
  not create itself: \<^verbatim>\<open>k8serrors.IsNotFound\<close> (and \<^verbatim>\<open>client.IgnoreNotFound\<close>,
  which is built on it). \<open>NoHost\<close> is the sentinel \<^verbatim>\<open>customerrors.NoHost\<close>;
  \<open>ErrorString\<close> is \<^verbatim>\<open>errors.New\<close>. A nil error is \<open>None\<close> of \<open>error option\<close>.
\<close>

datatype error =
    StatusNotFound string
  | NoHost
  | ErrorString string

fun IsNotFound :: "error \<Rightarrow> bool" where
  "IsNotFound (StatusNotFound _) = True"
| "IsNotFound _ = False"

definition IgnoreNotFound :: "error \<Rightarrow> error option" where
  "IgnoreNotFound err = (if IsNotFound err then None else Some err)"

text \<open>
  Modelled from the spec: package \<^verbatim>\<open>pkg/util/reconcile\<close> (the type \<^verbatim>\<open>Result\<close> and its
  constructors \<^verbatim>\<open>StopOperation\<close>, \<^verbatim>\<open>ContinueOperation\<close>, \<^verbatim>\<open>StopReconcile\<close>,
  \<^verbatim>\<open>ContinueReconcile\<close>, \<^verbatim>\<open>RequeueReconcileWith\<close>) is not among the sources. The spec's
  control signal is one of Continue, Stop or Requeue(err); the Go functions return the
  pair of a \<^verbatim>\<open>Result\<close> and an \<^verbatim>\<open>error\<close>, which is kept here.
\<close>

datatype Result = ContinueOperation | StopOperation | RequeueOperation

definition ContinueReconcile :: "Result \<times> error option" where
  "ContinueReconcile = (ContinueOperation, None)"

definition StopReconcile :: "Result \<times> error option" where
  "StopReconcile = (StopOperation, None)"

definition RequeueReconcileWith :: "error \<Rightarrow> Result \<times> error option" where
  "RequeueReconcileWith err = (RequeueOperation, Some err)"

section \<open>Objects\<close>

text \<open>
  \<^verbatim>\<open>types.NamespacedName\<close> and \<^verbatim>\<open>v1alpha1.NamespacedName\<close> have the same two string
  fields; one record stands for both. The zero value is the absent reference.
\<close>

record NamespacedName =
  Name :: string
  Namespace :: string

definition emptyNamespacedName :: NamespacedName where
  "emptyNamespacedName = \<lparr>Name = [], Namespace = []\<rparr>"

text \<open>
  A ServiceMonitor object (\<^verbatim>\<open>monitoringv1.ServiceMonitor\<close> and \<^verbatim>\<open>rhobsv1.ServiceMonitor\<close>
  have the same shape): identity, the rest of the metadata the store maintains, and the
  spec payload, whose fields are those the template of this package fills.
\<close>

record Endpoint =
  Port :: string
  Interval :: string
  ScrapeTimeout :: string
  Path :: string
  Scheme :: string
  Params :: "(string \<times> string list) list"
  MetricRelabelConfigs :: "(string \<times> string) list"

record ServiceMonitorSpec =
  Endpoints :: "Endpoint list"
  SelectorMatchLabels :: "(string \<times> string) list"
  NamespaceSelectorMatchNames :: "string list"

record ServiceMonitorObject =
  sm_Name :: string
  sm_Namespace :: string
  sm_ResourceVersion :: string
  sm_Labels :: "(string \<times> string) list"
  sm_Spec :: ServiceMonitorSpec

text \<open>The API group that the Go type of the object selects in a store call.\<close>

datatype ApiGroup = MonitoringCoreosCom | MonitoringRhobs

section \<open>The store client and the trace of calls\<close>

text \<open>
  \<^verbatim>\<open>client.Client\<close> is an interface; the tests drive it with a mock. It is a record of
  operations over a store state \<open>'st\<close> of any type. \<^verbatim>\<open>Get\<close> fills the object it is
  given, or returns an error.
\<close>

record 'st Client =
  Get :: "ApiGroup \<Rightarrow> NamespacedName \<Rightarrow> 'st \<Rightarrow> (error + ServiceMonitorObject) \<times> 'st"
  Create :: "ApiGroup \<Rightarrow> ServiceMonitorObject \<Rightarrow> 'st \<Rightarrow> error option \<times> 'st"
  Update :: "ApiGroup \<Rightarrow> ServiceMonitorObject \<Rightarrow> 'st \<Rightarrow> error option \<times> 'st"
  Delete :: "ApiGroup \<Rightarrow> ServiceMonitorObject \<Rightarrow> 'st \<Rightarrow> error option \<times> 'st"

text \<open>
  What a function does to the world is the sequence of calls it makes on its
  collaborators. Each call is recorded with its arguments and its answer, in order.
\<close>

datatype ClientCall =
    GetCall ApiGroup NamespacedName "error + ServiceMonitorObject"
  | CreateCall ApiGroup ServiceMonitorObject "error option"
  | UpdateCall ApiGroup ServiceMonitorObject "error option"
  | DeleteCall ApiGroup ServiceMonitorObject "error option"

record ('st, 'c) world =
  store :: 'st
  calls :: "'c list"

text \<open>The handler of package \<^verbatim>\<open>servicemonitor\<close>: a client and a comparer.\<close>

record 'st ServiceMonitor =
  Client :: "'st Client"
  Comparer :: "ServiceMonitorSpec \<Rightarrow> ServiceMonitorSpec \<Rightarrow> bool"

text \<open>
  A call on a collaborator: run the operation on the store and append the call, with
  the answer it gave, to the trace.
\<close>

definition invoke ::
  "('st \<Rightarrow> 'a \<times> 'st) \<Rightarrow> ('a \<Rightarrow> 'c) \<Rightarrow> ('st, 'c) world \<Rightarrow> 'a \<times> ('st, 'c) world" where
  "invoke operation record_call w =
     (case operation (store w) of
        (res, st) \<Rightarrow> (res, \<lparr>store = st, calls = calls w @ [record_call res]\<rparr>))"

section \<open>Package servicemonitor\<close>

text \<open>
  \<^verbatim>\<open>UpdateServiceMonitorDeployment\<close>: fetch by the template's identity; not found, create
  the template; another error, return it; found, compare the specs and update the
  fetched object with the template's spec when they differ.
\<close>

definition UpdateServiceMonitorDeployment ::
  "'st ServiceMonitor \<Rightarrow> ServiceMonitorObject \<Rightarrow> ('st, ClientCall) world
    \<Rightarrow> error option \<times> ('st, ClientCall) world" where
  "UpdateServiceMonitorDeployment u template w =
     (let namespacedName = \<lparr>Name = sm_Name template, Namespace = sm_Namespace template\<rparr>;
          g = MonitoringCoreosCom in
      case invoke (Get (Client u) g namespacedName) (GetCall g namespacedName) w of
        (Inl err, w1) \<Rightarrow>
          if \<not> IsNotFound err then (Some err, w1)
          else invoke (Create (Client u) g template) (CreateCall g template) w1
      | (Inr deployedServiceMonitor, w1) \<Rightarrow>
          if \<not> Comparer u (sm_Spec deployedServiceMonitor) (sm_Spec template)
          then
            let deployedServiceMonitor = deployedServiceMonitor\<lparr>sm_Spec := sm_Spec template\<rparr>
            in invoke (Update (Client u) g deployedServiceMonitor)
                 (UpdateCall g deployedServiceMonitor) w1
          else (None, w1))"

definition HypershiftUpdateServiceMonitorDeployment ::
  "'st ServiceMonitor \<Rightarrow> ServiceMonitorObject \<Rightarrow> ('st, ClientCall) world
    \<Rightarrow> error option \<times> ('st, ClientCall) world" where
  "HypershiftUpdateServiceMonitorDeployment u template w =
     (let namespacedName = \<lparr>Name = sm_Name template, Namespace = sm_Namespace template\<rparr>;
          g = MonitoringRhobs in
      case invoke (Get (Client u) g namespacedName) (GetCall g namespacedName) w of
        (Inl err, w1) \<Rightarrow>
          if \<not> IsNotFound err then (Some err, w1)
          else invoke (Create (Client u) g template) (CreateCall g template) w1
      | (Inr deployedServiceMonitor, w1) \<Rightarrow>
          if \<not> Comparer u (sm_Spec deployedServiceMonitor) (sm_Spec template)
          then
            let deployedServiceMonitor = deployedServiceMonitor\<lparr>sm_Spec := sm_Spec template\<rparr>
            in invoke (Update (Client u) g deployedServiceMonitor)
                 (UpdateCall g deployedServiceMonitor) w1
          else (None, w1))"

text \<open>
  \<^verbatim>\<open>DeleteServiceMonitorDeployment\<close>: nothing to do when the name or the namespace of the
  reference is empty; otherwise fetch (in the API group that \<^verbatim>\<open>isHCP\<close> selects), ignore
  not-found, and delete what was fetched.
\<close>

definition DeleteServiceMonitorDeployment ::
  "'st ServiceMonitor \<Rightarrow> NamespacedName \<Rightarrow> bool \<Rightarrow> ('st, ClientCall) world
    \<Rightarrow> error option \<times> ('st, ClientCall) world" where
  "DeleteServiceMonitorDeployment u serviceMonitorRef isHCP w =
     (if Name serviceMonitorRef = [] \<or> Namespace serviceMonitorRef = [] then (None, w)
      else
        let namespacedName =
              \<lparr>Name = Name serviceMonitorRef, Namespace = Namespace serviceMonitorRef\<rparr> in
        if isHCP then
          (case invoke (Get (Client u) MonitoringRhobs namespacedName)
                  (GetCall MonitoringRhobs namespacedName) w of
             (Inl err, w1) \<Rightarrow> (IgnoreNotFound err, w1)
           | (Inr resource, w1) \<Rightarrow>
               invoke (Delete (Client u) MonitoringRhobs resource)
                 (DeleteCall MonitoringRhobs resource) w1)
        else
          (case invoke (Get (Client u) MonitoringCoreosCom namespacedName)
                  (GetCall MonitoringCoreosCom namespacedName) w of
             (Inl err, w1) \<Rightarrow> (IgnoreNotFound err, w1)
           | (Inr resource, w1) \<Rightarrow>
               invoke (Delete (Client u) MonitoringCoreosCom resource)
                 (DeleteCall MonitoringCoreosCom resource) w1))"

section \<open>The RouteMonitor and the Route\<close>

text \<open>
  Modelled from the spec: the struct declarations of package \<^verbatim>\<open>api/v1alpha1\<close> are not
  among the sources. The spec's parent has a spec of a target descriptor, an SLO
  descriptor and a skip flag, and a status of the resolved target URL, the two
  references to derived resources and the error-status text; the field names are those
  this package uses. \<open>Route\<close> is the \<^verbatim>\<open>RouteMonitorRouteSpec\<close>: the name and namespace of
  the Route.
\<close>

record SloSpec =
  TargetAvailabilityPercent :: string

record RouteMonitorSpec =
  Route :: NamespacedName
  Slo :: SloSpec
  SkipPrometheusRule :: bool

record RouteMonitorStatus =
  RouteURL :: string
  ServiceMonitorRef :: NamespacedName
  PrometheusRuleRef :: NamespacedName
  ErrorStatus :: string

text \<open>
  The metadata of an object is that of \<^verbatim>\<open>metav1.TypeMeta\<close> and \<^verbatim>\<open>metav1.ObjectMeta\<close>, field
  by field, since \<^verbatim>\<open>reflect.DeepEqual\<close> reads every one of them. A pointer is an option
  (\<open>None\<close> is nil). A slice or a map is an option as well: \<open>None\<close> is the nil slice or map,
  \<open>Some []\<close> and \<open>Some Map.empty\<close> are the empty ones that are not nil, which
  \<^verbatim>\<open>reflect.DeepEqual\<close> tells from nil. A \<^verbatim>\<open>metav1.Time\<close> is the zero time or an instant.
\<close>

datatype Time = ZeroTime | Instant string

record OwnerReference =
  OwnerReference_APIVersion :: string
  OwnerReference_Kind :: string
  OwnerReference_Name :: string
  OwnerReference_UID :: string
  OwnerReference_Controller :: "bool option"
  OwnerReference_BlockOwnerDeletion :: "bool option"

record ManagedFieldsEntry =
  ManagedFieldsEntry_Manager :: string
  ManagedFieldsEntry_Operation :: string
  ManagedFieldsEntry_APIVersion :: string
  ManagedFieldsEntry_Time :: "Time option"
  ManagedFieldsEntry_FieldsType :: string
  ManagedFieldsEntry_FieldsV1 :: "string option"
  ManagedFieldsEntry_Subresource :: string

text \<open>
  The parent object \<^verbatim>\<open>v1alpha1.RouteMonitor\<close>: the embedded \<^verbatim>\<open>TypeMeta\<close> and \<^verbatim>\<open>ObjectMeta\<close>,
  the spec and the status. \<open>Finalizers\<close> and \<open>DeletionTimestamp\<close> are the fields of those
  names of \<^verbatim>\<open>ObjectMeta\<close>.
\<close>

record RouteMonitor =
  TypeMeta_Kind :: string
  TypeMeta_APIVersion :: string
  ObjectMeta_Name :: string
  ObjectMeta_GenerateName :: string
  ObjectMeta_Namespace :: string
  ObjectMeta_SelfLink :: string
  ObjectMeta_UID :: string
  ObjectMeta_ResourceVersion :: string
  ObjectMeta_Generation :: int
  ObjectMeta_CreationTimestamp :: Time
  DeletionTimestamp :: "string option"
  ObjectMeta_DeletionGracePeriodSeconds :: "int option"
  ObjectMeta_Labels :: "(string \<rightharpoonup> string) option"
  ObjectMeta_Annotations :: "(string \<rightharpoonup> string) option"
  ObjectMeta_OwnerReferences :: "OwnerReference list option"
  Finalizers :: "string list option"
  ObjectMeta_ManagedFields :: "ManagedFieldsEntry list option"
  Spec :: RouteMonitorSpec
  Status :: RouteMonitorStatus

text \<open>\<^verbatim>\<open>GetFinalizers\<close> of \<^verbatim>\<open>metav1.Object\<close>: the finalizers as a sequence, none for nil.\<close>

definition GetFinalizers :: "RouteMonitor \<Rightarrow> string list" where
  "GetFinalizers obj = (case Finalizers obj of None \<Rightarrow> [] | Some finalizers \<Rightarrow> finalizers)"

text \<open>
  The zero value \<^verbatim>\<open>v1alpha1.RouteMonitor{}\<close>: every string empty, every number zero, every
  flag false, every pointer, slice and map nil.
\<close>

definition emptyRouteMonitor :: RouteMonitor where
  "emptyRouteMonitor =
     \<lparr>TypeMeta_Kind = [], TypeMeta_APIVersion = [],
      ObjectMeta_Name = [], ObjectMeta_GenerateName = [], ObjectMeta_Namespace = [],
      ObjectMeta_SelfLink = [], ObjectMeta_UID = [], ObjectMeta_ResourceVersion = [],
      ObjectMeta_Generation = 0, ObjectMeta_CreationTimestamp = ZeroTime,
      DeletionTimestamp = None, ObjectMeta_DeletionGracePeriodSeconds = None,
      ObjectMeta_Labels = None, ObjectMeta_Annotations = None,
      ObjectMeta_OwnerReferences = None, Finalizers = None,
      ObjectMeta_ManagedFields = None,
      Spec = \<lparr>Route = emptyNamespacedName, Slo = \<lparr>TargetAvailabilityPercent = []\<rparr>,
              SkipPrometheusRule = False\<rparr>,
      Status = \<lparr>RouteURL = [], ServiceMonitorRef = emptyNamespacedName,
                PrometheusRuleRef = emptyNamespacedName, ErrorStatus = []\<rparr>\<rparr>"

text \<open>
  Of a \<^verbatim>\<open>routev1.Route\<close> the code reads \<^verbatim>\<open>Spec.TLS\<close> (a pointer: \<open>None\<close> is nil) and
  \<^verbatim>\<open>Status.Ingress\<close>.
\<close>

record TLSConfig =
  Termination :: string

record RouteIngress =
  Host :: string
  RouterName :: string

record routev1_Route =
  Spec_TLS :: "TLSConfig option"
  Status_Ingress :: "RouteIngress list"

record PrometheusRule =
  pr_Name :: string
  pr_Namespace :: string
  pr_Rules :: string

section \<open>The reconciler and its collaborators\<close>

text \<open>
  The calls the reconciler makes on its collaborators, each with its arguments and the
  answer it got. Logging is not a call: it has no part in any outcome.
\<close>

datatype HandlerCall =
    ClientGetCall NamespacedName "error + RouteMonitor"
  | ShouldDeleteBlackBoxExporterResourcesCall "bool \<times> error option"
  | EnsureBlackBoxExporterResourcesAbsentCall "error option"
  | GetOSDClusterIDCall "string \<times> error option"
  | TemplateAndUpdateServiceMonitorDeploymentCall string string NamespacedName string bool
      "error option"
  | DeleteServiceMonitorDeploymentCall NamespacedName bool "error option"
  | UpdatePrometheusRuleDeploymentCall PrometheusRule "error option"
  | DeletePrometheusRuleDeploymentCall NamespacedName "error option"
  | UpdateMonitorResourceCall RouteMonitor "Result \<times> error option"
  | UpdateMonitorResourceStatusCall RouteMonitor "Result \<times> error option"

text \<open>
  \<^verbatim>\<open>RouteMonitorReconciler\<close> holds a client and four handlers, all interfaces
  (\<^verbatim>\<open>BlackBoxExporterHandler\<close>, \<^verbatim>\<open>ServiceMonitorHandler\<close>, \<^verbatim>\<open>PrometheusRuleHandler\<close>,
  \<^verbatim>\<open>MonitorResourceHandler\<close>). Each method the code calls is a field, named by the
  path of the call: \<open>Prom_DeletePrometheusRuleDeployment r\<close> is
  \<^verbatim>\<open>r.Prom.DeletePrometheusRuleDeployment\<close>. A method that reaches the cluster is an
  operation on the store; a method that only computes is a function. The template of
  package \<^verbatim>\<open>alert\<close> and the two finalizer keys of package \<^verbatim>\<open>consts\<close>, which are not
  among the sources, are fields as well.
\<close>

record 'st RouteMonitorReconciler =
  Client_Get :: "NamespacedName \<Rightarrow> 'st \<Rightarrow> (error + RouteMonitor) \<times> 'st"
  BlackBoxExporter_ShouldDeleteBlackBoxExporterResources ::
    "'st \<Rightarrow> (bool \<times> error option) \<times> 'st"
  BlackBoxExporter_EnsureBlackBoxExporterResourcesAbsent :: "'st \<Rightarrow> error option \<times> 'st"
  BlackBoxExporter_GetBlackBoxExporterNamespace :: string
  ServiceMonitor_TemplateAndUpdateServiceMonitorDeployment ::
    "string \<Rightarrow> string \<Rightarrow> NamespacedName \<Rightarrow> string \<Rightarrow> bool \<Rightarrow> 'st \<Rightarrow> error option \<times> 'st"
  ServiceMonitor_DeleteServiceMonitorDeployment ::
    "NamespacedName \<Rightarrow> bool \<Rightarrow> 'st \<Rightarrow> error option \<times> 'st"
  Prom_UpdatePrometheusRuleDeployment :: "PrometheusRule \<Rightarrow> 'st \<Rightarrow> error option \<times> 'st"
  Prom_DeletePrometheusRuleDeployment :: "NamespacedName \<Rightarrow> 'st \<Rightarrow> error option \<times> 'st"
  Common_GetOSDClusterID :: "'st \<Rightarrow> (string \<times> error option) \<times> 'st"
  Common_ParseMonitorSLOSpecs :: "string \<Rightarrow> SloSpec \<Rightarrow> string \<times> error option"
  Common_SetErrorStatus :: "string \<Rightarrow> error option \<Rightarrow> string \<times> bool"
  Common_UpdateMonitorResource :: "RouteMonitor \<Rightarrow> 'st \<Rightarrow> (Result \<times> error option) \<times> 'st"
  Common_UpdateMonitorResourceStatus ::
    "RouteMonitor \<Rightarrow> 'st \<Rightarrow> (Result \<times> error option) \<times> 'st"
  alert_TemplateForPrometheusRuleResource ::
    "string \<Rightarrow> string \<Rightarrow> NamespacedName \<Rightarrow> PrometheusRule"
  consts_FinalizerKey :: string
  consts_PrevFinalizerKey :: string

text \<open>
  Modelled from the spec: \<^verbatim>\<open>SetResourceReference\<close> of package \<^verbatim>\<open>pkg/reconcile\<close> is not
  among the sources. The spec's \<open>setRef(&statusField, newValue) -> (changed bool)\<close> is a
  pure compare-and-assign. The result is the reference after the call, whether it
  changed, and the error of the Go signature, which the spec never raises.
\<close>

definition SetResourceReference ::
  "NamespacedName \<Rightarrow> NamespacedName \<Rightarrow> NamespacedName \<times> bool \<times> error option" where
  "SetResourceReference reference target =
     (if reference \<noteq> target then (target, True, None) else (reference, False, None))"

text \<open>
  Modelled from the spec: \<^verbatim>\<open>DeleteFinalizer\<close> of package \<^verbatim>\<open>pkg/reconcile\<close> is not among
  the sources. The finalizers are a set of string markers; deleting a marker removes it
  and reports whether it was there. An object that does not carry the marker is left as
  it is.
\<close>

definition DeleteFinalizer :: "RouteMonitor \<Rightarrow> string \<Rightarrow> RouteMonitor \<times> bool" where
  "DeleteFinalizer obj finalizerKey =
     (if finalizerKey \<in> set (GetFinalizers obj)
      then (obj\<lparr>Finalizers := Some (removeAll finalizerKey (GetFinalizers obj))\<rparr>, True)
      else (obj, False))"

section \<open>Package routemonitor\<close>

text \<open>\<^verbatim>\<open>EnsurePrometheusRuleExists\<close>, branch by branch as the source has it.\<close>

definition EnsurePrometheusRuleExists ::
  "'st RouteMonitorReconciler \<Rightarrow> RouteMonitor \<Rightarrow> ('st, HandlerCall) world
    \<Rightarrow> (Result \<times> error option) \<times> ('st, HandlerCall) world" where
  "EnsurePrometheusRuleExists r routeMonitor w =
     (if SkipPrometheusRule (Spec routeMonitor) then
        (case invoke (Prom_DeletePrometheusRuleDeployment r (PrometheusRuleRef (Status routeMonitor)))
                (DeletePrometheusRuleDeploymentCall (PrometheusRuleRef (Status routeMonitor))) w of
           (Some err, w1) \<Rightarrow> (RequeueReconcileWith err, w1)
         | (None, w1) \<Rightarrow>
             (case SetResourceReference (PrometheusRuleRef (Status routeMonitor))
                     emptyNamespacedName of
                (reference, updated, _) \<Rightarrow>
                  let routeMonitor =
                        routeMonitor\<lparr>Status := (Status routeMonitor)\<lparr>PrometheusRuleRef := reference\<rparr>\<rparr> in
                  if updated
                  then invoke (Common_UpdateMonitorResourceStatus r routeMonitor)
                         (UpdateMonitorResourceStatusCall routeMonitor) w1
                  else (ContinueReconcile, w1)))
      else
        (case Common_ParseMonitorSLOSpecs r (RouteURL (Status routeMonitor)) (Slo (Spec routeMonitor)) of
           (parsedSlo, err) \<Rightarrow>
             (case Common_SetErrorStatus r (ErrorStatus (Status routeMonitor)) err of
                (errorStatus, changed) \<Rightarrow>
                  let routeMonitor =
                        routeMonitor\<lparr>Status := (Status routeMonitor)\<lparr>ErrorStatus := errorStatus\<rparr>\<rparr> in
                  if changed
                  then invoke (Common_UpdateMonitorResourceStatus r routeMonitor)
                         (UpdateMonitorResourceStatusCall routeMonitor) w
                  else if parsedSlo = [] then
                    (case invoke (Prom_DeletePrometheusRuleDeployment r
                                    (PrometheusRuleRef (Status routeMonitor)))
                            (DeletePrometheusRuleDeploymentCall
                               (PrometheusRuleRef (Status routeMonitor))) w of
                       (Some err, w1) \<Rightarrow> (RequeueReconcileWith err, w1)
                     | (None, w1) \<Rightarrow>
                         (case SetResourceReference (PrometheusRuleRef (Status routeMonitor))
                                 emptyNamespacedName of
                            (reference, updated, _) \<Rightarrow>
                              let routeMonitor =
                                    routeMonitor\<lparr>Status :=
                                      (Status routeMonitor)\<lparr>PrometheusRuleRef := reference\<rparr>\<rparr> in
                              if updated
                              then invoke (Common_UpdateMonitorResourceStatus r routeMonitor)
                                     (UpdateMonitorResourceStatusCall routeMonitor) w1
                              else (StopReconcile, w1)))
                  else
                    let namespacedName =
                          \<lparr>Name = ObjectMeta_Name routeMonitor,
                           Namespace = ObjectMeta_Namespace routeMonitor\<rparr>;
                        template =
                          alert_TemplateForPrometheusRuleResource r
                            (RouteURL (Status routeMonitor)) parsedSlo namespacedName in
                    (case invoke (Prom_UpdatePrometheusRuleDeployment r template)
                            (UpdatePrometheusRuleDeploymentCall template) w of
                       (Some err, w1) \<Rightarrow> (RequeueReconcileWith err, w1)
                     | (None, w1) \<Rightarrow>
                         (case SetResourceReference (PrometheusRuleRef (Status routeMonitor))
                                 namespacedName of
                            (reference, updated, _) \<Rightarrow>
                              let routeMonitor =
                                    routeMonitor\<lparr>Status :=
                                      (Status routeMonitor)\<lparr>PrometheusRuleRef := reference\<rparr>\<rparr> in
                              if updated
                              then invoke (Common_UpdateMonitorResourceStatus r routeMonitor)
                                     (UpdateMonitorResourceStatusCall routeMonitor) w1
                              else (ContinueReconcile, w1))))))"

text \<open>
  \<^verbatim>\<open>EnsureServiceMonitorExists\<close>. The first test is the only place of the file where an
  empty \<^verbatim>\<open>RouteURL\<close> in the status is turned into a requeue. The variable \<^verbatim>\<open>id\<close> of
  the source is \<open>clusterID\<close> here.
\<close>

definition EnsureServiceMonitorExists ::
  "'st RouteMonitorReconciler \<Rightarrow> RouteMonitor \<Rightarrow> ('st, HandlerCall) world
    \<Rightarrow> (Result \<times> error option) \<times> ('st, HandlerCall) world" where
  "EnsureServiceMonitorExists r routeMonitor w =
     (if RouteURL (Status routeMonitor) = [] then (RequeueReconcileWith NoHost, w)
      else
        let namespacedName =
              \<lparr>Name = ObjectMeta_Name routeMonitor,
               Namespace = ObjectMeta_Namespace routeMonitor\<rparr>;
            isHCP = False in
        (case invoke (Common_GetOSDClusterID r) GetOSDClusterIDCall w of
           ((clusterID, Some err), w1) \<Rightarrow> (RequeueReconcileWith err, w1)
         | ((clusterID, None), w1) \<Rightarrow>
             (case invoke (ServiceMonitor_TemplateAndUpdateServiceMonitorDeployment r
                             (RouteURL (Status routeMonitor))
                             (BlackBoxExporter_GetBlackBoxExporterNamespace r)
                             namespacedName clusterID isHCP)
                     (TemplateAndUpdateServiceMonitorDeploymentCall
                        (RouteURL (Status routeMonitor))
                        (BlackBoxExporter_GetBlackBoxExporterNamespace r)
                        namespacedName clusterID isHCP) w1 of
                (Some err, w2) \<Rightarrow> (RequeueReconcileWith err, w2)
              | (None, w2) \<Rightarrow>
                  (case SetResourceReference (ServiceMonitorRef (Status routeMonitor))
                          namespacedName of
                     (reference, updated, Some err) \<Rightarrow> (RequeueReconcileWith err, w2)
                   | (reference, updated, None) \<Rightarrow>
                       let routeMonitor =
                             routeMonitor\<lparr>Status :=
                               (Status routeMonitor)\<lparr>ServiceMonitorRef := reference\<rparr>\<rparr> in
                       if updated
                       then invoke (Common_UpdateMonitorResourceStatus r routeMonitor)
                              (UpdateMonitorResourceStatusCall routeMonitor) w2
                       else (ContinueReconcile, w2)))))"

text \<open>
  \<^verbatim>\<open>EnsureMonitorAndDependenciesAbsent\<close>, the deletion cascade. The monitor is a
  parameter by value: the finalizers are removed from the local copy, and the copy
  reaches the store through \<^verbatim>\<open>UpdateMonitorResource\<close> only.
\<close>

definition EnsureMonitorAndDependenciesAbsent ::
  "'st RouteMonitorReconciler \<Rightarrow> RouteMonitor \<Rightarrow> ('st, HandlerCall) world
    \<Rightarrow> (Result \<times> error option) \<times> ('st, HandlerCall) world" where
  "EnsureMonitorAndDependenciesAbsent r routeMonitor w =
     (case invoke (BlackBoxExporter_ShouldDeleteBlackBoxExporterResources r)
             ShouldDeleteBlackBoxExporterResourcesCall w of
        ((shouldDeleteBlackBoxResources, Some err), w1) \<Rightarrow> (RequeueReconcileWith err, w1)
      | ((shouldDeleteBlackBoxResources, None), w1) \<Rightarrow>
          (case (if shouldDeleteBlackBoxResources
                 then invoke (BlackBoxExporter_EnsureBlackBoxExporterResourcesAbsent r)
                        EnsureBlackBoxExporterResourcesAbsentCall w1
                 else (None, w1)) of
             (Some err, w2) \<Rightarrow> (RequeueReconcileWith err, w2)
           | (None, w2) \<Rightarrow>
               let isHCP = False in
               (case invoke (ServiceMonitor_DeleteServiceMonitorDeployment r
                               (ServiceMonitorRef (Status routeMonitor)) isHCP)
                       (DeleteServiceMonitorDeploymentCall
                          (ServiceMonitorRef (Status routeMonitor)) isHCP) w2 of
                  (Some err, w3) \<Rightarrow> (RequeueReconcileWith err, w3)
                | (None, w3) \<Rightarrow>
                    (case invoke (Prom_DeletePrometheusRuleDeployment r
                                    (PrometheusRuleRef (Status routeMonitor)))
                            (DeletePrometheusRuleDeploymentCall
                               (PrometheusRuleRef (Status routeMonitor))) w3 of
                       (Some err, w4) \<Rightarrow> (RequeueReconcileWith err, w4)
                     | (None, w4) \<Rightarrow>
                         (case DeleteFinalizer routeMonitor (consts_FinalizerKey r) of
                            (routeMonitor, True) \<Rightarrow>
                              (case DeleteFinalizer routeMonitor (consts_PrevFinalizerKey r) of
                                 (routeMonitor, _) \<Rightarrow>
                                   invoke (Common_UpdateMonitorResource r routeMonitor)
                                     (UpdateMonitorResourceCall routeMonitor) w4)
                          | (routeMonitor, False) \<Rightarrow> (StopReconcile, w4))))))"

text \<open>
  \<^verbatim>\<open>GetRouteMonitor\<close>. \<^verbatim>\<open>reflect.DeepEqual\<close> of the fetched object and the zero value
  compares every field of the struct, through pointers, and tells a nil slice or map from
  an empty one; on the record above that is equality with \<open>emptyRouteMonitor\<close>.
\<close>

definition GetRouteMonitor ::
  "'st RouteMonitorReconciler \<Rightarrow> NamespacedName \<Rightarrow> ('st, HandlerCall) world
    \<Rightarrow> (RouteMonitor \<times> Result \<times> error option) \<times> ('st, HandlerCall) world" where
  "GetRouteMonitor r req w =
     (case invoke (Client_Get r req) (ClientGetCall req) w of
        (Inl err, w1) \<Rightarrow>
          if \<not> IsNotFound err
          then (case RequeueReconcileWith err of
                  (res, err) \<Rightarrow> ((emptyRouteMonitor, res, err), w1))
          else ((emptyRouteMonitor, StopOperation, None), w1)
      | (Inr routeMonitor, w1) \<Rightarrow>
          if routeMonitor = emptyRouteMonitor
          then ((emptyRouteMonitor, StopOperation, None), w1)
          else ((routeMonitor, ContinueOperation, None), w1))"

text \<open>
  \<^verbatim>\<open>EnsureRouteURLExists\<close>. \<^verbatim>\<open>route.Status.Ingress[0]\<close> is read after the test that the
  list is not empty.
\<close>

definition EnsureRouteURLExists ::
  "'st RouteMonitorReconciler \<Rightarrow> routev1_Route \<Rightarrow> RouteMonitor \<Rightarrow> ('st, HandlerCall) world
    \<Rightarrow> (Result \<times> error option) \<times> ('st, HandlerCall) world" where
  "EnsureRouteURLExists r route routeMonitor w =
     (let amountOfIngress = length (Status_Ingress route) in
      if amountOfIngress = 0
      then (RequeueReconcileWith
              (ErrorString ''No Ingress: cannot extract route url from the Route resource''), w)
      else
        let extractedRouteURL = Host (Status_Ingress route ! 0) in
        if extractedRouteURL = [] then (RequeueReconcileWith NoHost, w)
        else
          let currentRouteURL = RouteURL (Status routeMonitor);
              extractedRouteURL =
                (if Spec_TLS route \<noteq> None then ''https://'' @ extractedRouteURL
                 else extractedRouteURL) in
          if currentRouteURL = extractedRouteURL then (ContinueReconcile, w)
          else
            let routeMonitor =
                  routeMonitor\<lparr>Status := (Status routeMonitor)\<lparr>RouteURL := extractedRouteURL\<rparr>\<rparr>
            in invoke (Common_UpdateMonitorResourceStatus r routeMonitor)
                 (UpdateMonitorResourceStatusCall routeMonitor) w)"

section \<open>Fixtures\<close>

text \<open>
  A mock reconciler in the manner of the generated mocks: every collaborator answers
  with a fixed response and leaves the store alone. Here nothing fails, no shared
  exporter is to be torn down, the SLO parses to \<open>''slo''\<close>, the error status never
  changes, and a persisted write answers Stop.
\<close>

definition mockReconciler :: "unit RouteMonitorReconciler" where
  "mockReconciler =
     \<lparr>Client_Get = (\<lambda>key st. (Inl (StatusNotFound ''not found''), st)),
      BlackBoxExporter_ShouldDeleteBlackBoxExporterResources = (\<lambda>st. ((False, None), st)),
      BlackBoxExporter_EnsureBlackBoxExporterResourcesAbsent = (\<lambda>st. (None, st)),
      BlackBoxExporter_GetBlackBoxExporterNamespace = ''bbe'',
      ServiceMonitor_TemplateAndUpdateServiceMonitorDeployment =
        (\<lambda>url ns key id hcp st. (None, st)),
      ServiceMonitor_DeleteServiceMonitorDeployment = (\<lambda>ref hcp st. (None, st)),
      Prom_UpdatePrometheusRuleDeployment = (\<lambda>template st. (None, st)),
      Prom_DeletePrometheusRuleDeployment = (\<lambda>ref st. (None, st)),
      Common_GetOSDClusterID = (\<lambda>st. ((''id'', None), st)),
      Common_ParseMonitorSLOSpecs = (\<lambda>url slo. (''slo'', None)),
      Common_SetErrorStatus = (\<lambda>errorStatus err. (errorStatus, False)),
      Common_UpdateMonitorResource = (\<lambda>obj st. (StopReconcile, st)),
      Common_UpdateMonitorResourceStatus = (\<lambda>obj st. (StopReconcile, st)),
      alert_TemplateForPrometheusRuleResource =
        (\<lambda>url slo key. \<lparr>pr_Name = Name key, pr_Namespace = Namespace key, pr_Rules = slo\<rparr>),
      consts_FinalizerKey = ''finalizer'',
      consts_PrevFinalizerKey = ''prevfinalizer''\<rparr>"

text \<open>A monitor named \<open>m\<close> in namespace \<open>ns\<close>, with the current finalizer and nothing else.\<close>

definition testRouteMonitor :: RouteMonitor where
  "testRouteMonitor =
     emptyRouteMonitor\<lparr>ObjectMeta_Name := ''m'', ObjectMeta_Namespace := ''ns'',
       Finalizers := Some [''finalizer'']\<rparr>"

text \<open>
  Two objects that are not the zero value: one with nothing set but the resource version
  the store assigns, one with nothing set but an empty list of finalizers that is not
  nil.
\<close>

definition versionOnlyRouteMonitor :: RouteMonitor where
  "versionOnlyRouteMonitor = emptyRouteMonitor\<lparr>ObjectMeta_ResourceVersion := ''41''\<rparr>"

definition emptyFinalizersRouteMonitor :: RouteMonitor where
  "emptyFinalizersRouteMonitor = emptyRouteMonitor\<lparr>Finalizers := Some []\<rparr>"

text \<open>
  The mock client of the tests of package \<^verbatim>\<open>servicemonitor\<close>: every operation answers
  with a fixed response and leaves the store alone. The comparer is equality of specs.
\<close>

definition mockClient ::
  "(error + ServiceMonitorObject) \<Rightarrow> error option \<Rightarrow> error option \<Rightarrow> error option
    \<Rightarrow> unit Client" where
  "mockClient getResponse createResponse updateResponse deleteResponse =
     \<lparr>Get = (\<lambda>g key st. (getResponse, st)),
      Create = (\<lambda>g obj st. (createResponse, st)),
      Update = (\<lambda>g obj st. (updateResponse, st)),
      Delete = (\<lambda>g obj st. (deleteResponse, st))\<rparr>"

definition mockServiceMonitor ::
  "(error + ServiceMonitorObject) \<Rightarrow> error option \<Rightarrow> error option \<Rightarrow> error option
    \<Rightarrow> unit ServiceMonitor" where
  "mockServiceMonitor getResponse createResponse updateResponse deleteResponse =
     \<lparr>Client = mockClient getResponse createResponse updateResponse deleteResponse,
      Comparer = (=)\<rparr>"

definition emptyWorld :: "(unit, 'c) world" where
  "emptyWorld = \<lparr>store = (), calls = []\<rparr>"

text \<open>A template, and a deployed object of the same identity with another spec.\<close>

definition testServiceMonitor :: ServiceMonitorObject where
  "testServiceMonitor =
     \<lparr>sm_Name = ''m'', sm_Namespace = ''ns'', sm_ResourceVersion = [], sm_Labels = [],
      sm_Spec = \<lparr>Endpoints = [], SelectorMatchLabels = [],
                 NamespaceSelectorMatchNames = [''bbe'']\<rparr>\<rparr>"

definition deployedServiceMonitor :: ServiceMonitorObject where
  "deployedServiceMonitor =
     \<lparr>sm_Name = ''m'', sm_Namespace = ''ns'', sm_ResourceVersion = ''41'',
      sm_Labels = [(''owner'', ''x'')],
      sm_Spec = \<lparr>Endpoints = [], SelectorMatchLabels = [],
                 NamespaceSelectorMatchNames = [''old'']\<rparr>\<rparr>"

definition testRef :: NamespacedName where
  "testRef = \<lparr>Name = ''m'', Namespace = ''ns''\<rparr>"

definition testRoute :: routev1_Route where
  "testRoute =
     \<lparr>Spec_TLS = Some \<lparr>Termination = ''edge''\<rparr>,
      Status_Ingress = [\<lparr>Host = ''host.example'', RouterName = ''default''\<rparr>]\<rparr>"

text \<open>
  A monitor whose deletion was requested while both derived resources are recorded in
  its status.
\<close>

definition deletingRouteMonitor :: RouteMonitor where
  "deletingRouteMonitor =
     testRouteMonitor\<lparr>DeletionTimestamp := Some ''2024-01-01T00:00:00Z'',
       Status := (Status testRouteMonitor)\<lparr>RouteURL := ''host.example'',
         ServiceMonitorRef := testRef, PrometheusRuleRef := testRef\<rparr>\<rparr>"

text \<open>The same first ingress and a TLS setting again, with a second ingress after it.\<close>

definition manyIngressRoute :: routev1_Route where
  "manyIngressRoute =
     \<lparr>Spec_TLS = Some \<lparr>Termination = ''passthrough''\<rparr>,
      Status_Ingress =
        [\<lparr>Host = ''host.example'', RouterName = ''default''\<rparr>,
         \<lparr>Host = ''other.example'', RouterName = ''second''\<rparr>]\<rparr>"


section \<open>Facts about the fixtures\<close>

lemma NamespacedName_rebuild [simp]:
  "\<lparr>Name = Name r, Namespace = Namespace r\<rparr> = (r::NamespacedName)"
  by (cases r) simp

lemma mock_Get [simp]:
  "Get (Client (mockServiceMonitor getResponse c u d)) g key st = (getResponse, st)"
  by (simp add: mockServiceMonitor_def mockClient_def)

lemma mock_Create [simp]:
  "Create (Client (mockServiceMonitor getResponse c u d)) g obj st = (c, st)"
  by (simp add: mockServiceMonitor_def mockClient_def)

lemma mock_Update [simp]:
  "Update (Client (mockServiceMonitor getResponse c u d)) g obj st = (u, st)"
  by (simp add: mockServiceMonitor_def mockClient_def)

lemma mock_Delete [simp]:
  "Delete (Client (mockServiceMonitor getResponse c u d)) g obj st = (d, st)"
  by (simp add: mockServiceMonitor_def mockClient_def)

lemma mock_Comparer [simp]:
  "Comparer (mockServiceMonitor getResponse c u d) a b = (a = b)"
  by (simp add: mockServiceMonitor_def)

lemma test_specs_differ [simp]:
  "sm_Spec deployedServiceMonitor \<noteq> sm_Spec testServiceMonitor"
  by (simp add: deployedServiceMonitor_def testServiceMonitor_def)

lemma test_identity [simp]:
  "sm_Name testServiceMonitor = Name testRef"
  "sm_Namespace testServiceMonitor = Namespace testRef"
  by (simp_all add: testServiceMonitor_def testRef_def)

lemma testRef_fields [simp]:
  "Name testRef \<noteq> []" "Namespace testRef \<noteq> []" "testRef \<noteq> emptyNamespacedName"
  by (simp_all add: testRef_def emptyNamespacedName_def)

lemma emptyWorld_fields [simp]: "store emptyWorld = ()" "calls emptyWorld = []"
  by (simp_all add: emptyWorld_def)




lemma mock_update_status [simp]:
  "Common_UpdateMonitorResourceStatus
     (mockReconciler\<lparr>Common_ParseMonitorSLOSpecs := parser\<rparr>) obj st = (StopReconcile, st)"
  "Common_UpdateMonitorResourceStatus mockReconciler obj st = (StopReconcile, st)"
  by (simp_all add: mockReconciler_def)

text \<open>Three runs of the fixtures, evaluated.\<close>

lemma cascade_example_run:
  "EnsureMonitorAndDependenciesAbsent mockReconciler deletingRouteMonitor emptyWorld =
     (StopReconcile,
      \<lparr>store = (), calls =
         [ShouldDeleteBlackBoxExporterResourcesCall (False, None),
          DeleteServiceMonitorDeploymentCall testRef False None,
          DeletePrometheusRuleDeploymentCall testRef None,
          UpdateMonitorResourceCall (deletingRouteMonitor\<lparr>Finalizers := Some []\<rparr>)
            StopReconcile]\<rparr>)"
  by (simp add: EnsureMonitorAndDependenciesAbsent_def invoke_def mockReconciler_def
      deletingRouteMonitor_def testRouteMonitor_def DeleteFinalizer_def GetFinalizers_def
      emptyWorld_def)

lemma cascade_example_failing_run:
  "EnsureMonitorAndDependenciesAbsent
     (mockReconciler\<lparr>Prom_DeletePrometheusRuleDeployment :=
        (\<lambda>ref st. (Some (ErrorString ''custom''), st))\<rparr>)
     deletingRouteMonitor emptyWorld =
     (RequeueReconcileWith (ErrorString ''custom''),
      \<lparr>store = (), calls =
         [ShouldDeleteBlackBoxExporterResourcesCall (False, None),
          DeleteServiceMonitorDeploymentCall testRef False None,
          DeletePrometheusRuleDeploymentCall testRef (Some (ErrorString ''custom''))]\<rparr>)"
  by (simp add: EnsureMonitorAndDependenciesAbsent_def invoke_def mockReconciler_def
      deletingRouteMonitor_def testRouteMonitor_def emptyWorld_def)

lemma route_example_run:
  "EnsureRouteURLExists mockReconciler testRoute testRouteMonitor emptyWorld =
     (StopReconcile,
      \<lparr>store = (), calls =
         [UpdateMonitorResourceStatusCall
            (testRouteMonitor\<lparr>Status := (Status testRouteMonitor)\<lparr>RouteURL :=
               ''https://host.example''\<rparr>\<rparr>) StopReconcile]\<rparr>)"
  by (simp add: EnsureRouteURLExists_def invoke_def mockReconciler_def testRoute_def
      testRouteMonitor_def emptyRouteMonitor_def emptyWorld_def)

section \<open>The deletion cascade, step by step\<close>

lemma snd_DeleteFinalizer [simp]:
  "snd (DeleteFinalizer obj k) = (k \<in> set (GetFinalizers obj))"
  by (simp add: DeleteFinalizer_def)

lemma Status_DeleteFinalizer [simp]:
  "Status (fst (DeleteFinalizer obj k)) = Status obj"
  by (simp add: DeleteFinalizer_def)

lemma GetFinalizers_DeleteFinalizer [simp]:
  "set (GetFinalizers (fst (DeleteFinalizer obj k))) = set (GetFinalizers obj) - {k}"
  by (auto simp: DeleteFinalizer_def GetFinalizers_def)

text \<open>
  Given what each collaborator answers, in the order of the calls, the result of the
  cascade and its trace: the first error ends it; with no error the finalizers are
  removed and persisted, or, when the current finalizer is not there, nothing is written.
\<close>

lemma cascade_run:
  assumes "BlackBoxExporter_ShouldDeleteBlackBoxExporterResources r (store w) = ((b, e1), st1)"
    and "(if b then BlackBoxExporter_EnsureBlackBoxExporterResourcesAbsent r st1 else (None, st1)) =
           (e2, st2)"
    and "ServiceMonitor_DeleteServiceMonitorDeployment r (ServiceMonitorRef (Status routeMonitor))
           False st2 = (e3, st3)"
    and "Prom_DeletePrometheusRuleDeployment r (PrometheusRuleRef (Status routeMonitor)) st3 =
           (e4, st4)"
    and "persisted =
           fst (DeleteFinalizer (fst (DeleteFinalizer routeMonitor (consts_FinalizerKey r)))
                  (consts_PrevFinalizerKey r))"
    and "Common_UpdateMonitorResource r persisted st4 = (answer, st5)"
    and "before = ShouldDeleteBlackBoxExporterResourcesCall (b, None) #
           (if b then [EnsureBlackBoxExporterResourcesAbsentCall e2] else [])"
    and "sm = DeleteServiceMonitorDeploymentCall (ServiceMonitorRef (Status routeMonitor)) False"
    and "pr = DeletePrometheusRuleDeploymentCall (PrometheusRuleRef (Status routeMonitor))"
  shows
    "EnsureMonitorAndDependenciesAbsent r routeMonitor w =
       (case e1 of
          Some err \<Rightarrow>
            (RequeueReconcileWith err,
             \<lparr>store = st1,
              calls = calls w @ [ShouldDeleteBlackBoxExporterResourcesCall (b, e1)]\<rparr>)
        | None \<Rightarrow>
       (case e2 of
          Some err \<Rightarrow> (RequeueReconcileWith err, \<lparr>store = st2, calls = calls w @ before\<rparr>)
        | None \<Rightarrow>
       (case e3 of
          Some err \<Rightarrow>
            (RequeueReconcileWith err, \<lparr>store = st3, calls = calls w @ before @ [sm e3]\<rparr>)
        | None \<Rightarrow>
       (case e4 of
          Some err \<Rightarrow>
            (RequeueReconcileWith err,
             \<lparr>store = st4, calls = calls w @ before @ [sm None, pr e4]\<rparr>)
        | None \<Rightarrow>
            if consts_FinalizerKey r \<in> set (GetFinalizers routeMonitor)
            then (answer,
                  \<lparr>store = st5,
                   calls = calls w @ before @
                     [sm None, pr None, UpdateMonitorResourceCall persisted answer]\<rparr>)
            else (StopReconcile,
                  \<lparr>store = st4, calls = calls w @ before @ [sm None, pr None]\<rparr>)))))"
  using assms
  by (cases b)
    (simp_all add: EnsureMonitorAndDependenciesAbsent_def invoke_def case_prod_beta
      bool.case_eq_if split: option.split)

section \<open>Package servicemonitor: ensureExists and ensureAbsent\<close>

text \<open>
  Claim C3. \<^verbatim>\<open>UpdateServiceMonitorDeployment\<close> is the spec's ensureExists. It fetches by the
  template's name and namespace; \<open>got\<close> is what the fetch answers. On not-found it creates
  the template and returns what the create returns, with no update. On any other fetch
  error it returns that error and makes no further call. On a successful fetch it makes
  no further call when the comparer reports the two specs equal, and otherwise issues one
  update, of the fetched object with only its spec replaced by the template's, and
  returns what the update returns.
\<close>

theorem UpdateServiceMonitorDeployment_ensureExists:
  assumes "UpdateServiceMonitorDeployment u template w = (res, w')"
    and "Get (Client u) MonitoringCoreosCom
           \<lparr>Name = sm_Name template, Namespace = sm_Namespace template\<rparr> (store w) = (got, st1)"
    and "fetch = GetCall MonitoringCoreosCom
           \<lparr>Name = sm_Name template, Namespace = sm_Namespace template\<rparr> got"
  shows
    "case got of
       Inl err \<Rightarrow>
         if IsNotFound err
         then (res, store w') = Create (Client u) MonitoringCoreosCom template st1 \<and>
              calls w' = calls w @ [fetch, CreateCall MonitoringCoreosCom template res]
         else res = Some err \<and> store w' = st1 \<and> calls w' = calls w @ [fetch]
     | Inr deployed \<Rightarrow>
         if Comparer u (sm_Spec deployed) (sm_Spec template)
         then res = None \<and> store w' = st1 \<and> calls w' = calls w @ [fetch]
         else (res, store w') =
                Update (Client u) MonitoringCoreosCom
                  (deployed\<lparr>sm_Spec := sm_Spec template\<rparr>) st1 \<and>
              calls w' = calls w @
                [fetch,
                 UpdateCall MonitoringCoreosCom (deployed\<lparr>sm_Spec := sm_Spec template\<rparr>) res]"
  using assms
  by (auto simp: UpdateServiceMonitorDeployment_def invoke_def Let_def
      split: if_splits prod.splits sum.splits)

theorem UpdateServiceMonitorDeployment_ensureExists_witness:
  "calls (snd (UpdateServiceMonitorDeployment
                 (mockServiceMonitor (Inr deployedServiceMonitor) None None None)
                 testServiceMonitor emptyWorld)) =
     [GetCall MonitoringCoreosCom testRef (Inr deployedServiceMonitor),
      UpdateCall MonitoringCoreosCom
        (deployedServiceMonitor\<lparr>sm_Spec := sm_Spec testServiceMonitor\<rparr>) None] \<and>
   calls (snd (UpdateServiceMonitorDeployment
                 (mockServiceMonitor (Inr testServiceMonitor) None None None)
                 testServiceMonitor emptyWorld)) =
     [GetCall MonitoringCoreosCom testRef (Inr testServiceMonitor)] \<and>
   calls (snd (UpdateServiceMonitorDeployment
                 (mockServiceMonitor (Inl (StatusNotFound ''gone'')) None None None)
                 testServiceMonitor emptyWorld)) =
     [GetCall MonitoringCoreosCom testRef (Inl (StatusNotFound ''gone'')),
      CreateCall MonitoringCoreosCom testServiceMonitor None] \<and>
   UpdateServiceMonitorDeployment
     (mockServiceMonitor (Inl (ErrorString ''custom'')) None None None)
     testServiceMonitor emptyWorld =
     (Some (ErrorString ''custom''),
      \<lparr>store = (),
       calls = [GetCall MonitoringCoreosCom testRef (Inl (ErrorString ''custom''))]\<rparr>)"
proof -
  let ?run = "\<lambda>u. UpdateServiceMonitorDeployment u testServiceMonitor emptyWorld"
  let ?u1 = "mockServiceMonitor (Inr deployedServiceMonitor) None None None"
  let ?u2 = "mockServiceMonitor (Inr testServiceMonitor) None None None"
  let ?u3 = "mockServiceMonitor (Inl (StatusNotFound ''gone'')) None None None"
  let ?u4 = "mockServiceMonitor (Inl (ErrorString ''custom'')) None None None"
  have 1: "calls (snd (?run ?u1)) =
     [GetCall MonitoringCoreosCom testRef (Inr deployedServiceMonitor),
      UpdateCall MonitoringCoreosCom
        (deployedServiceMonitor\<lparr>sm_Spec := sm_Spec testServiceMonitor\<rparr>) None]"
    using UpdateServiceMonitorDeployment_ensureExists
            [OF surjective_pairing [of "?run ?u1"] mock_Get refl]
    by simp
  have 2: "calls (snd (?run ?u2)) =
     [GetCall MonitoringCoreosCom testRef (Inr testServiceMonitor)]"
    using UpdateServiceMonitorDeployment_ensureExists
            [OF surjective_pairing [of "?run ?u2"] mock_Get refl]
    by simp
  have 3: "calls (snd (?run ?u3)) =
     [GetCall MonitoringCoreosCom testRef (Inl (StatusNotFound ''gone'')),
      CreateCall MonitoringCoreosCom testServiceMonitor None]"
    using UpdateServiceMonitorDeployment_ensureExists
            [OF surjective_pairing [of "?run ?u3"] mock_Get refl]
    by simp
  have 4: "?run ?u4 = (Some (ErrorString ''custom''),
      \<lparr>store = (),
       calls = [GetCall MonitoringCoreosCom testRef (Inl (ErrorString ''custom''))]\<rparr>)"
    using UpdateServiceMonitorDeployment_ensureExists
            [OF surjective_pairing [of "?run ?u4"] mock_Get refl]
    by (simp add: prod_eq_iff world.equality)
  from 1 2 3 4 show ?thesis by blast
qed

text \<open>
  Claim C4. \<^verbatim>\<open>DeleteServiceMonitorDeployment\<close> is the spec's ensureAbsent. For the absent
  reference it returns nil and leaves the world as it was: no store call. For a reference
  with both fields set it fetches, in the API group that \<^verbatim>\<open>isHCP\<close> selects; \<open>got\<close> is what
  the fetch answers. A not-found fetch gives nil and no delete; any other fetch error is
  returned, with no delete; a successful fetch is followed by one delete, of the object
  fetched, and the function returns what the delete returns, every error included. (A
  reference with exactly one empty field makes no fetch at all: claim C8.)
\<close>

theorem DeleteServiceMonitorDeployment_ensureAbsent:
  assumes "DeleteServiceMonitorDeployment u ref isHCP w = (res, w')"
    and "g = (if isHCP then MonitoringRhobs else MonitoringCoreosCom)"
    and "Get (Client u) g ref (store w) = (got, st1)"
  shows
    "if ref = emptyNamespacedName then res = None \<and> w' = w
     else if Name ref = [] \<or> Namespace ref = [] then res = None \<and> w' = w
     else
       case got of
         Inl err \<Rightarrow>
           res = (if IsNotFound err then None else Some err) \<and> store w' = st1 \<and>
           calls w' = calls w @ [GetCall g ref got]
       | Inr resource \<Rightarrow>
           (res, store w') = Delete (Client u) g resource st1 \<and>
           calls w' = calls w @ [GetCall g ref got, DeleteCall g resource res]"
  using assms
  by (auto simp: DeleteServiceMonitorDeployment_def invoke_def IgnoreNotFound_def Let_def
      emptyNamespacedName_def split: if_splits prod.splits sum.splits)

theorem DeleteServiceMonitorDeployment_ensureAbsent_witness:
  "DeleteServiceMonitorDeployment
     (mockServiceMonitor (Inr deployedServiceMonitor) None None (Some (ErrorString ''custom'')))
     testRef False emptyWorld =
     (Some (ErrorString ''custom''),
      \<lparr>store = (), calls =
         [GetCall MonitoringCoreosCom testRef (Inr deployedServiceMonitor),
          DeleteCall MonitoringCoreosCom deployedServiceMonitor
            (Some (ErrorString ''custom''))]\<rparr>) \<and>
   DeleteServiceMonitorDeployment
     (mockServiceMonitor (Inl (StatusNotFound ''gone'')) None None None)
     testRef False emptyWorld =
     (None,
      \<lparr>store = (),
       calls = [GetCall MonitoringCoreosCom testRef (Inl (StatusNotFound ''gone''))]\<rparr>) \<and>
   DeleteServiceMonitorDeployment
     (mockServiceMonitor (Inl (ErrorString ''custom'')) None None None)
     emptyNamespacedName False emptyWorld = (None, emptyWorld)"
proof -
  let ?run = "\<lambda>u ref. DeleteServiceMonitorDeployment u ref False emptyWorld"
  let ?u1 = "mockServiceMonitor (Inr deployedServiceMonitor) None None
               (Some (ErrorString ''custom''))"
  let ?u2 = "mockServiceMonitor (Inl (StatusNotFound ''gone'')) None None None"
  let ?u3 = "mockServiceMonitor (Inl (ErrorString ''custom'')) None None None"
  have 1: "?run ?u1 testRef = (Some (ErrorString ''custom''),
      \<lparr>store = (), calls =
         [GetCall MonitoringCoreosCom testRef (Inr deployedServiceMonitor),
          DeleteCall MonitoringCoreosCom deployedServiceMonitor
            (Some (ErrorString ''custom''))]\<rparr>)"
    using DeleteServiceMonitorDeployment_ensureAbsent
            [OF surjective_pairing [of "?run ?u1 testRef"] refl mock_Get]
    by (simp add: prod_eq_iff world.equality)
  have 2: "?run ?u2 testRef =
     (None,
      \<lparr>store = (),
       calls = [GetCall MonitoringCoreosCom testRef (Inl (StatusNotFound ''gone''))]\<rparr>)"
    using DeleteServiceMonitorDeployment_ensureAbsent
            [OF surjective_pairing [of "?run ?u2 testRef"] refl mock_Get]
    by (simp add: prod_eq_iff world.equality)
  have 3: "?run ?u3 emptyNamespacedName = (None, emptyWorld)"
    using DeleteServiceMonitorDeployment_ensureAbsent
            [OF surjective_pairing [of "?run ?u3 emptyNamespacedName"] refl mock_Get]
    by (simp add: prod_eq_iff)
  from 1 2 3 show ?thesis by blast
qed

text \<open>
  Claim C8. \<^verbatim>\<open>DeleteServiceMonitorDeployment\<close> returns nil and makes no store call exactly
  when the name or the namespace of the reference is empty: with either one empty the
  world is returned as it was, and with both set at least the fetch is made. So a
  reference with a name and no namespace, which is not the absent reference, is
  skipped: never fetched, never deleted.
\<close>

theorem DeleteServiceMonitorDeployment_skips_half_empty_ref:
  "(Name serviceMonitorRef = [] \<or> Namespace serviceMonitorRef = [] \<longrightarrow>
      DeleteServiceMonitorDeployment u serviceMonitorRef isHCP w = (None, w)) \<and>
   (Name serviceMonitorRef \<noteq> [] \<and> Namespace serviceMonitorRef \<noteq> [] \<longrightarrow>
      calls (snd (DeleteServiceMonitorDeployment u serviceMonitorRef isHCP w)) \<noteq> calls w)"
  by (auto simp: DeleteServiceMonitorDeployment_def invoke_def Let_def
      split: if_splits prod.splits sum.splits)

theorem DeleteServiceMonitorDeployment_skips_half_empty_ref_witness:
  "\<lparr>Name = ''test'', Namespace = []\<rparr> \<noteq> emptyNamespacedName \<and>
   DeleteServiceMonitorDeployment
     (mockServiceMonitor (Inr deployedServiceMonitor) None None None)
     \<lparr>Name = ''test'', Namespace = []\<rparr> False emptyWorld = (None, emptyWorld) \<and>
   calls (snd (DeleteServiceMonitorDeployment
                 (mockServiceMonitor (Inr deployedServiceMonitor) None None None)
                 testRef False emptyWorld)) \<noteq> []"
  using DeleteServiceMonitorDeployment_skips_half_empty_ref
          [of "\<lparr>Name = ''test'', Namespace = []\<rparr>"
            "mockServiceMonitor (Inr deployedServiceMonitor) None None None" False emptyWorld]
        DeleteServiceMonitorDeployment_skips_half_empty_ref
          [of testRef
            "mockServiceMonitor (Inr deployedServiceMonitor) None None None" False emptyWorld]
  by (simp add: emptyNamespacedName_def)

section \<open>Package routemonitor: the deletion cascade\<close>




text \<open>
  Claim C2. \<open>evs\<close> is the trace of one run of \<^verbatim>\<open>EnsureMonitorAndDependenciesAbsent\<close>. If
  in it the accounting call \<^verbatim>\<open>ShouldDeleteBlackBoxExporterResources\<close>, the teardown of the
  shared exporter, the delete of the ServiceMonitor or the delete of the PrometheusRule
  answered an error, the run returns Requeue with that error and made no call that
  persists the monitor, so its finalizers in the store are as they were. And if the run
  persisted the removal of the finalizer, both deletes were made on the references of the
  status and every delete of the run answered nil.
\<close>

theorem cascade_failure_requeues:
  assumes "EnsureMonitorAndDependenciesAbsent r routeMonitor w = (res, w')"
    and "calls w' = calls w @ evs"
  shows
    "(ShouldDeleteBlackBoxExporterResourcesCall (b, Some err) \<in> set evs \<or>
      EnsureBlackBoxExporterResourcesAbsentCall (Some err) \<in> set evs \<or>
      DeleteServiceMonitorDeploymentCall ref1 hcp (Some err) \<in> set evs \<or>
      DeletePrometheusRuleDeploymentCall ref2 (Some err) \<in> set evs \<longrightarrow>
        res = RequeueReconcileWith err \<and>
        (\<forall>persisted answer. UpdateMonitorResourceCall persisted answer \<notin> set evs)) \<and>
     (UpdateMonitorResourceCall persisted answer \<in> set evs \<longrightarrow>
        DeleteServiceMonitorDeploymentCall (ServiceMonitorRef (Status routeMonitor)) False None
          \<in> set evs \<and>
        DeletePrometheusRuleDeploymentCall (PrometheusRuleRef (Status routeMonitor)) None
          \<in> set evs \<and>
        (\<forall>ref hcp a. DeleteServiceMonitorDeploymentCall ref hcp a \<in> set evs \<longrightarrow> a = None) \<and>
        (\<forall>ref a. DeletePrometheusRuleDeploymentCall ref a \<in> set evs \<longrightarrow> a = None))"
proof -
  obtain b0 e1 st1 where 1:
    "BlackBoxExporter_ShouldDeleteBlackBoxExporterResources r (store w) = ((b0, e1), st1)"
    by (metis surj_pair)
  obtain e2 st2 where 2:
    "(if b0 then BlackBoxExporter_EnsureBlackBoxExporterResourcesAbsent r st1 else (None, st1)) =
       (e2, st2)"
    by (metis surj_pair)
  obtain e3 st3 where 3:
    "ServiceMonitor_DeleteServiceMonitorDeployment r (ServiceMonitorRef (Status routeMonitor))
       False st2 = (e3, st3)"
    by (metis surj_pair)
  obtain e4 st4 where 4:
    "Prom_DeletePrometheusRuleDeployment r (PrometheusRuleRef (Status routeMonitor)) st3 =
       (e4, st4)"
    by (metis surj_pair)
  obtain answer0 st5 where 5:
    "Common_UpdateMonitorResource r
       (fst (DeleteFinalizer (fst (DeleteFinalizer routeMonitor (consts_FinalizerKey r)))
               (consts_PrevFinalizerKey r))) st4 = (answer0, st5)"
    by (metis surj_pair)
  have e2: "\<not> b0 \<Longrightarrow> e2 = None"
    using 2 by simp
  from assms e2 show ?thesis
    unfolding cascade_run [OF 1 2 3 4 refl 5 refl refl refl]
    by (auto split: option.splits if_splits)
qed

theorem cascade_failure_requeues_witness:
  "fst (EnsureMonitorAndDependenciesAbsent
          (mockReconciler\<lparr>Prom_DeletePrometheusRuleDeployment :=
             (\<lambda>ref st. (Some (ErrorString ''custom''), st))\<rparr>)
          deletingRouteMonitor emptyWorld) =
     (RequeueOperation, Some (ErrorString ''custom'')) \<and>
   DeletePrometheusRuleDeploymentCall testRef None \<in>
     set (calls (snd (EnsureMonitorAndDependenciesAbsent mockReconciler deletingRouteMonitor
                        emptyWorld)))"
proof -
  let ?failing = "mockReconciler\<lparr>Prom_DeletePrometheusRuleDeployment :=
             (\<lambda>ref st. (Some (ErrorString ''custom''), st))\<rparr>"
  let ?evs1 = "[ShouldDeleteBlackBoxExporterResourcesCall (False, None),
          DeleteServiceMonitorDeploymentCall testRef False None,
          DeletePrometheusRuleDeploymentCall testRef (Some (ErrorString ''custom''))]"
  let ?evs2 = "[ShouldDeleteBlackBoxExporterResourcesCall (False, None),
          DeleteServiceMonitorDeploymentCall testRef False None,
          DeletePrometheusRuleDeploymentCall testRef None,
          UpdateMonitorResourceCall (deletingRouteMonitor\<lparr>Finalizers := Some []\<rparr>) StopReconcile]"
  have 1: "fst (EnsureMonitorAndDependenciesAbsent ?failing deletingRouteMonitor emptyWorld) =
     (RequeueOperation, Some (ErrorString ''custom''))"
    using cascade_failure_requeues [OF cascade_example_failing_run, of ?evs1 False
        "ErrorString ''custom''" testRef False testRef]
    by (simp add: RequeueReconcileWith_def cascade_example_failing_run)
  have status: "PrometheusRuleRef (Status deletingRouteMonitor) = testRef"
    by (simp add: deletingRouteMonitor_def)
  have 2: "DeletePrometheusRuleDeploymentCall testRef None \<in>
     set (calls (snd (EnsureMonitorAndDependenciesAbsent mockReconciler deletingRouteMonitor
                        emptyWorld)))"
    using cascade_failure_requeues [OF cascade_example_run, of ?evs2 _ _ _ _ _
        "deletingRouteMonitor\<lparr>Finalizers := Some []\<rparr>" StopReconcile] status
    by (simp add: cascade_example_run)
  from 1 2 show ?thesis by blast
qed

section \<open>Package routemonitor: the alert rule and the target URL\<close>



text \<open>
  Claim C6, as it is worded, places the test of an unresolved target in
  \<^verbatim>\<open>EnsurePrometheusRuleExists\<close>. That function never tests \<^verbatim>\<open>RouteURL\<close>: it hands it to
  the SLO parser and follows the parser's answer. The monitor here has the skip flag
  unset and an empty \<^verbatim>\<open>RouteURL\<close>. With a parser that yields an expression the step goes
  on to update the alert rule and record its reference; with a parser that yields no
  expression and the no-host error, and an error status that reports no change, it goes
  on to delete the alert rule and stops. Neither run requeues.
\<close>

theorem EnsurePrometheusRuleExists_no_target_counterexample:
  "RouteURL (Status testRouteMonitor) = [] \<and>
   SkipPrometheusRule (Spec testRouteMonitor) = False \<and>
   EnsurePrometheusRuleExists mockReconciler testRouteMonitor emptyWorld =
     (StopReconcile,
      \<lparr>store = (), calls =
         [UpdatePrometheusRuleDeploymentCall
            \<lparr>pr_Name = ''m'', pr_Namespace = ''ns'', pr_Rules = ''slo''\<rparr> None,
          UpdateMonitorResourceStatusCall
            (testRouteMonitor\<lparr>Status := (Status testRouteMonitor)\<lparr>PrometheusRuleRef :=
               \<lparr>Name = ''m'', Namespace = ''ns''\<rparr>\<rparr>\<rparr>) StopReconcile]\<rparr>) \<and>
   EnsurePrometheusRuleExists
     (mockReconciler\<lparr>Common_ParseMonitorSLOSpecs := (\<lambda>url slo. ([], Some NoHost))\<rparr>)
     testRouteMonitor emptyWorld =
     (StopReconcile,
      \<lparr>store = (), calls = [DeletePrometheusRuleDeploymentCall emptyNamespacedName None]\<rparr>) \<and>
   StopReconcile \<noteq> RequeueReconcileWith NoHost"
  by (simp add: EnsurePrometheusRuleExists_def invoke_def mockReconciler_def
      testRouteMonitor_def emptyRouteMonitor_def SetResourceReference_def emptyWorld_def
      emptyNamespacedName_def StopReconcile_def RequeueReconcileWith_def)

text \<open>
  Claim C6, amended. The test of an unresolved target is the first statement of
  \<^verbatim>\<open>EnsureServiceMonitorExists\<close>, the step for the scrape resource: for every monitor whose
  \<^verbatim>\<open>RouteURL\<close> in the status is empty, whatever its skip flag, that step returns Requeue
  with the no-host error and the world is as it was, no collaborator called.
\<close>

theorem EnsureServiceMonitorExists_no_target:
  "RouteURL (Status routeMonitor) = [] \<Longrightarrow>
   EnsureServiceMonitorExists r routeMonitor w = (RequeueReconcileWith NoHost, w)"
  by (simp add: EnsureServiceMonitorExists_def)

theorem EnsureServiceMonitorExists_no_target_witness:
  "EnsureServiceMonitorExists mockReconciler testRouteMonitor emptyWorld =
     ((RequeueOperation, Some NoHost), emptyWorld)"
  using EnsureServiceMonitorExists_no_target [of testRouteMonitor mockReconciler emptyWorld]
  by (simp add: testRouteMonitor_def emptyRouteMonitor_def RequeueReconcileWith_def)

text \<open>
  Claim C7. In \<^verbatim>\<open>EnsureRouteURLExists\<close>, for a Route whose first ingress has a host, the
  extracted URL is that host, behind \<open>https://\<close> when the Route has a TLS setting. If the
  URL in the monitor's status equals it, the step returns Continue and the world is as it
  was: no write. If it differs, whatever it was, the status is persisted once with the
  extracted URL in its place, and the step returns what that call answers.
\<close>

theorem EnsureRouteURLExists_new_value_wins:
  assumes "EnsureRouteURLExists r route routeMonitor w = (res, w')"
    and "Status_Ingress route = ingress # others"
    and "Host ingress \<noteq> []"
    and "extractedRouteURL =
           (if Spec_TLS route \<noteq> None then ''https://'' @ Host ingress else Host ingress)"
    and "updated =
           routeMonitor\<lparr>Status := (Status routeMonitor)\<lparr>RouteURL := extractedRouteURL\<rparr>\<rparr>"
  shows
    "if RouteURL (Status routeMonitor) = extractedRouteURL
     then res = ContinueReconcile \<and> w' = w
     else (res, store w') = Common_UpdateMonitorResourceStatus r updated (store w) \<and>
          calls w' = calls w @ [UpdateMonitorResourceStatusCall updated res]"
  using assms
  by (auto simp: EnsureRouteURLExists_def invoke_def Let_def split: if_splits prod.splits)

theorem EnsureRouteURLExists_new_value_wins_witness:
  "EnsureRouteURLExists mockReconciler testRoute
     (testRouteMonitor\<lparr>Status := (Status testRouteMonitor)\<lparr>RouteURL := ''old.example''\<rparr>\<rparr>)
     emptyWorld =
     (StopReconcile,
      \<lparr>store = (), calls =
         [UpdateMonitorResourceStatusCall
            (testRouteMonitor\<lparr>Status := (Status testRouteMonitor)\<lparr>RouteURL :=
               ''https://host.example''\<rparr>\<rparr>) StopReconcile]\<rparr>) \<and>
   EnsureRouteURLExists mockReconciler testRoute
     (testRouteMonitor\<lparr>Status := (Status testRouteMonitor)\<lparr>RouteURL :=
        ''https://host.example''\<rparr>\<rparr>)
     emptyWorld = (ContinueReconcile, emptyWorld)"
proof -
  let ?old = "testRouteMonitor\<lparr>Status :=
        (Status testRouteMonitor)\<lparr>RouteURL := ''old.example''\<rparr>\<rparr>"
  let ?new = "testRouteMonitor\<lparr>Status := (Status testRouteMonitor)\<lparr>RouteURL :=
        ''https://host.example''\<rparr>\<rparr>"
  let ?run = "\<lambda>m. EnsureRouteURLExists mockReconciler testRoute m emptyWorld"
  have ing: "Status_Ingress testRoute =
      \<lparr>Host = ''host.example'', RouterName = ''default''\<rparr> # []"
    by (simp add: testRoute_def)
  have host: "Host \<lparr>Host = ''host.example'', RouterName = ''default''\<rparr> \<noteq> []"
    by simp
  have 1: "?run ?old = (StopReconcile,
      \<lparr>store = (), calls = [UpdateMonitorResourceStatusCall ?new StopReconcile]\<rparr>)"
    using EnsureRouteURLExists_new_value_wins
            [OF surjective_pairing [of "?run ?old"] ing host refl refl]
    by (simp add: prod_eq_iff world.equality testRoute_def)
  have 2: "?run ?new = (ContinueReconcile, emptyWorld)"
    using EnsureRouteURLExists_new_value_wins
            [OF surjective_pairing [of "?run ?new"] ing host refl refl]
    by (simp add: prod_eq_iff testRoute_def)
  from 1 2 show ?thesis by blast
qed

text \<open>
  Claim C10. \<^verbatim>\<open>EnsureRouteURLExists\<close> reads of the Route the host of the first ingress and
  whether there is a TLS setting, and nothing else: two Routes with a first ingress of the
  same host, both with or both without TLS, give the same result and the same world,
  whatever ingresses follow and whatever the TLS settings hold. When the status is
  persisted, the URL persisted is \<open>https://\<close> followed by the host exactly when the Route
  has a TLS setting, and the host alone exactly when it has none; so, for a host that
  does not itself start with \<open>https://\<close>, the URL persisted has that prefix exactly when
  the Route has a TLS setting.
\<close>

theorem EnsureRouteURLExists_first_ingress_and_tls:
  assumes "Status_Ingress route1 = ingress1 # others1"
    and "Status_Ingress route2 = ingress2 # others2"
    and "Host ingress1 = Host ingress2"
    and "(Spec_TLS route1 = None) = (Spec_TLS route2 = None)"
  shows
    "EnsureRouteURLExists r route1 routeMonitor w =
       EnsureRouteURLExists r route2 routeMonitor w \<and>
     (\<forall>persisted answer.
        calls (snd (EnsureRouteURLExists r route1 routeMonitor w)) =
          calls w @ [UpdateMonitorResourceStatusCall persisted answer] \<longrightarrow>
        persisted = routeMonitor\<lparr>Status := (Status routeMonitor)\<lparr>RouteURL :=
          RouteURL (Status persisted)\<rparr>\<rparr> \<and>
        (RouteURL (Status persisted) = ''https://'' @ Host ingress1) =
          (Spec_TLS route1 \<noteq> None) \<and>
        (RouteURL (Status persisted) = Host ingress1) = (Spec_TLS route1 = None) \<and>
        (\<not> prefix ''https://'' (Host ingress1) \<longrightarrow>
           prefix ''https://'' (RouteURL (Status persisted)) = (Spec_TLS route1 \<noteq> None)))"
  using assms
  by (auto simp: EnsureRouteURLExists_def invoke_def Let_def split: if_splits prod.splits)

theorem EnsureRouteURLExists_first_ingress_and_tls_witness:
  "EnsureRouteURLExists mockReconciler testRoute testRouteMonitor emptyWorld =
     EnsureRouteURLExists mockReconciler manyIngressRoute testRouteMonitor emptyWorld \<and>
   Spec_TLS testRoute \<noteq> Spec_TLS manyIngressRoute \<and>
   Status_Ingress testRoute \<noteq> Status_Ingress manyIngressRoute \<and>
   prefix ''https://''
     (RouteURL (Status (testRouteMonitor\<lparr>Status := (Status testRouteMonitor)\<lparr>RouteURL :=
        ''https://host.example''\<rparr>\<rparr>)))"
proof -
  let ?persisted = "testRouteMonitor\<lparr>Status := (Status testRouteMonitor)\<lparr>RouteURL :=
        ''https://host.example''\<rparr>\<rparr>"
  have i1: "Status_Ingress testRoute =
      \<lparr>Host = ''host.example'', RouterName = ''default''\<rparr> # []"
    by (simp add: testRoute_def)
  have i2: "Status_Ingress manyIngressRoute =
      \<lparr>Host = ''host.example'', RouterName = ''default''\<rparr> #
      [\<lparr>Host = ''other.example'', RouterName = ''second''\<rparr>]"
    by (simp add: manyIngressRoute_def)
  have tls: "(Spec_TLS testRoute = None) = (Spec_TLS manyIngressRoute = None)"
    by (simp add: testRoute_def manyIngressRoute_def)
  have ran: "calls (snd (EnsureRouteURLExists mockReconciler testRoute testRouteMonitor
        emptyWorld)) =
      calls emptyWorld @ [UpdateMonitorResourceStatusCall ?persisted StopReconcile]"
    by (simp add: route_example_run)
  note th = EnsureRouteURLExists_first_ingress_and_tls
              [OF i1 i2 refl tls, of mockReconciler testRouteMonitor emptyWorld]
  from th have 1:
    "EnsureRouteURLExists mockReconciler testRoute testRouteMonitor emptyWorld =
     EnsureRouteURLExists mockReconciler manyIngressRoute testRouteMonitor emptyWorld"
    by blast
  from th ran have 2: "prefix ''https://'' (RouteURL (Status ?persisted)) =
      (Spec_TLS testRoute \<noteq> None)"
    by simp
  have 3: "Spec_TLS testRoute \<noteq> None" "Spec_TLS testRoute \<noteq> Spec_TLS manyIngressRoute"
      "Status_Ingress testRoute \<noteq> Status_Ingress manyIngressRoute"
    by (simp_all add: testRoute_def manyIngressRoute_def)
  from 1 2 3 show ?thesis by blast
qed

section \<open>Package routemonitor: fetching the monitor\<close>

text \<open>
  What being deeply equal to the zero value asks of a fetched object: every field of the
  type and object metadata, of the spec and of the status is zero, and every pointer,
  slice and map is nil.
\<close>

lemma emptyRouteMonitor_iff:
  "m = emptyRouteMonitor \<longleftrightarrow>
     TypeMeta_Kind m = [] \<and> TypeMeta_APIVersion m = [] \<and>
     ObjectMeta_Name m = [] \<and> ObjectMeta_GenerateName m = [] \<and>
     ObjectMeta_Namespace m = [] \<and> ObjectMeta_SelfLink m = [] \<and> ObjectMeta_UID m = [] \<and>
     ObjectMeta_ResourceVersion m = [] \<and> ObjectMeta_Generation m = 0 \<and>
     ObjectMeta_CreationTimestamp m = ZeroTime \<and> DeletionTimestamp m = None \<and>
     ObjectMeta_DeletionGracePeriodSeconds m = None \<and> ObjectMeta_Labels m = None \<and>
     ObjectMeta_Annotations m = None \<and> ObjectMeta_OwnerReferences m = None \<and>
     Finalizers m = None \<and> ObjectMeta_ManagedFields m = None \<and>
     Name (Route (Spec m)) = [] \<and> Namespace (Route (Spec m)) = [] \<and>
     TargetAvailabilityPercent (Slo (Spec m)) = [] \<and> \<not> SkipPrometheusRule (Spec m) \<and>
     RouteURL (Status m) = [] \<and> ServiceMonitorRef (Status m) = emptyNamespacedName \<and>
     PrometheusRuleRef (Status m) = emptyNamespacedName \<and> ErrorStatus (Status m) = []"
proof (cases m)
  case (fields k v n gn ns sl uid rv gen ct dt dg la an ow fi mf sp st)
  obtain ro slo skip where sp: "sp = \<lparr>Route = ro, Slo = slo, SkipPrometheusRule = skip\<rparr>"
    by (cases sp) simp
  obtain rn rns where ro: "ro = \<lparr>Name = rn, Namespace = rns\<rparr>"
    by (cases ro) simp
  obtain tap where slo: "slo = \<lparr>TargetAvailabilityPercent = tap\<rparr>"
    by (cases slo) simp
  obtain url smr prr es where st:
    "st = \<lparr>RouteURL = url, ServiceMonitorRef = smr, PrometheusRuleRef = prr, ErrorStatus = es\<rparr>"
    by (cases st) simp
  show ?thesis
    unfolding fields sp ro slo st emptyRouteMonitor_def emptyNamespacedName_def
    by auto
qed

text \<open>
  Claim C9. \<^verbatim>\<open>GetRouteMonitor\<close> makes one fetch; \<open>got\<close> is what it answers. The function
  returns the zero monitor, Stop and a nil error in two cases: the fetch answered
  not-found, and the fetch succeeded with an object deeply equal to the zero value of
  \<^verbatim>\<open>RouteMonitor\<close>. Any other fetch error gives Requeue with that error, and any other
  object, be it one with nothing set but its resource version or one whose only
  difference from the zero value is an empty list of finalizers that is not nil, is
  returned with Continue.
\<close>

theorem GetRouteMonitor_stop_on_missing_or_empty:
  assumes "GetRouteMonitor r req w = ((routeMonitor, res, err), w')"
    and "Client_Get r req (store w) = (got, st1)"
  shows
    "w' = \<lparr>store = st1, calls = calls w @ [ClientGetCall req got]\<rparr> \<and>
     (routeMonitor, res, err) =
       (case got of
          Inl failure \<Rightarrow>
            if IsNotFound failure then (emptyRouteMonitor, StopOperation, None)
            else (emptyRouteMonitor, RequeueOperation, Some failure)
        | Inr fetched \<Rightarrow>
            if fetched = emptyRouteMonitor then (emptyRouteMonitor, StopOperation, None)
            else (fetched, ContinueOperation, None))"
  using assms
  by (auto simp: GetRouteMonitor_def invoke_def RequeueReconcileWith_def
      split: if_splits prod.splits sum.splits)

theorem GetRouteMonitor_stop_on_missing_or_empty_witness:
  "fst (GetRouteMonitor
          (mockReconciler\<lparr>Client_Get := (\<lambda>key st. (Inr emptyRouteMonitor, st))\<rparr>)
          testRef emptyWorld) = (emptyRouteMonitor, StopOperation, None) \<and>
   fst (GetRouteMonitor mockReconciler testRef emptyWorld) =
     (emptyRouteMonitor, StopOperation, None) \<and>
   fst (GetRouteMonitor
          (mockReconciler\<lparr>Client_Get := (\<lambda>key st. (Inr testRouteMonitor, st))\<rparr>)
          testRef emptyWorld) = (testRouteMonitor, ContinueOperation, None) \<and>
   fst (GetRouteMonitor
          (mockReconciler\<lparr>Client_Get := (\<lambda>key st. (Inr versionOnlyRouteMonitor, st))\<rparr>)
          testRef emptyWorld) = (versionOnlyRouteMonitor, ContinueOperation, None) \<and>
   fst (GetRouteMonitor
          (mockReconciler\<lparr>Client_Get := (\<lambda>key st. (Inr emptyFinalizersRouteMonitor, st))\<rparr>)
          testRef emptyWorld) = (emptyFinalizersRouteMonitor, ContinueOperation, None) \<and>
   GetFinalizers emptyFinalizersRouteMonitor = GetFinalizers emptyRouteMonitor"
proof -
  let ?fetching = "\<lambda>obj. mockReconciler\<lparr>Client_Get := (\<lambda>key st. (Inr obj, st))\<rparr>"
  let ?run = "\<lambda>r. GetRouteMonitor r testRef emptyWorld"
  have split3:
    "\<And>x::(RouteMonitor \<times> Result \<times> error option) \<times> (unit, HandlerCall) world.
      x = ((fst (fst x), fst (snd (fst x)), snd (snd (fst x))), snd x)"
    by simp
  have fetched: "\<And>obj. Client_Get (?fetching obj) testRef (store emptyWorld) = (Inr obj, ())"
    by simp
  have missing: "Client_Get mockReconciler testRef (store emptyWorld) =
      (Inl (StatusNotFound ''not found''), ())"
    by (simp add: mockReconciler_def)
  have ne: "testRouteMonitor \<noteq> emptyRouteMonitor"
      "versionOnlyRouteMonitor \<noteq> emptyRouteMonitor"
      "emptyFinalizersRouteMonitor \<noteq> emptyRouteMonitor"
    by (simp_all add: emptyRouteMonitor_iff testRouteMonitor_def versionOnlyRouteMonitor_def
        emptyFinalizersRouteMonitor_def)
  have 1: "fst (?run (?fetching emptyRouteMonitor)) = (emptyRouteMonitor, StopOperation, None)"
    using GetRouteMonitor_stop_on_missing_or_empty
            [OF split3 [of "?run (?fetching emptyRouteMonitor)"] fetched]
    by (simp add: prod_eq_iff)
  have 2: "fst (?run mockReconciler) = (emptyRouteMonitor, StopOperation, None)"
    using GetRouteMonitor_stop_on_missing_or_empty
            [OF split3 [of "?run mockReconciler"] missing]
    by (simp add: prod_eq_iff)
  have 3: "fst (?run (?fetching testRouteMonitor)) =
      (testRouteMonitor, ContinueOperation, None)"
    using GetRouteMonitor_stop_on_missing_or_empty
            [OF split3 [of "?run (?fetching testRouteMonitor)"] fetched] ne
    by (simp add: prod_eq_iff)
  have 4: "fst (?run (?fetching versionOnlyRouteMonitor)) =
      (versionOnlyRouteMonitor, ContinueOperation, None)"
    using GetRouteMonitor_stop_on_missing_or_empty
            [OF split3 [of "?run (?fetching versionOnlyRouteMonitor)"] fetched] ne
    by (simp add: prod_eq_iff)
  have 5: "fst (?run (?fetching emptyFinalizersRouteMonitor)) =
      (emptyFinalizersRouteMonitor, ContinueOperation, None)"
    using GetRouteMonitor_stop_on_missing_or_empty
            [OF split3 [of "?run (?fetching emptyFinalizersRouteMonitor)"] fetched] ne
    by (simp add: prod_eq_iff)
  have 6: "GetFinalizers emptyFinalizersRouteMonitor = GetFinalizers emptyRouteMonitor"
    by (simp add: GetFinalizers_def emptyFinalizersRouteMonitor_def emptyRouteMonitor_def)
  from 1 2 3 4 5 6 show ?thesis by blast
qed

end
